theory Spec2Isabelle
  imports Main
begin

section \<open>Data model of the Twitch client\<close>

text \<open>
  Modelled from the spec: the enums \<open>AuthScope\<close> and \<open>AuthType\<close> and the exception
  classes are declared in \<open>twitchAPI/types.py\<close>, which is not part of the sources at
  hand. A scope is identified by its \<open>name\<close> (the only attribute \<open>twitch.py\<close> reads);
  the auth type has the two members \<open>twitch.py\<close> names, \<open>APP\<close> and \<open>USER\<close>, and the
  third mode of the specification (\<open>Either\<close>), which reaches the last branch of
  \<open>__generate_header\<close>.
\<close>

datatype auth_scope = AuthScope (name: string)

datatype auth_type = APP | USER | EITHER

text \<open>
  Every \<open>raise\<close> of the source is a value of \<open>exn\<close>, carrying the message of the
  exception. \<open>TypeError\<close> is what Python raises when the token endpoint answers with
  JSON that is not an object and the code subscripts it with \<open>'access_token'\<close>.
\<close>

datatype exn =
    UnauthorizedException string
  | MissingScopeException string
  | TwitchAuthorizationException string
  | TwitchBackendException string
  | ValueError string
  | TypeError

datatype http_method = GET | POST | PUT | PATCH | DELETE

type_synonym header = "(string \<times> string) list"

type_synonym payload = "(string \<times> string) list"

text \<open>
  A \<open>requests.Response\<close>, as far as the client reads it: \<open>status_code\<close>, \<open>text\<close>
  (here \<open>text_body\<close>) and the result of \<open>json()\<close>: \<open>None\<close> when \<open>json()\<close> raises
  \<open>ValueError\<close>, otherwise the decoded value.
\<close>

datatype json_value = JDict "(string \<times> string) list" | JOther

record response =
  status_code :: int
  text_body :: string
  json :: "json_value option"

text \<open>
  The client's effects on the outside world are recorded in a trace: a request to a
  resource endpoint (with method, url, headers and optional JSON body), the POST to the
  token endpoint made by \<open>__generate_app_token\<close>, and the call of the OAuth helper
  \<open>refresh_access_token\<close>.
\<close>

datatype event =
    ApiRequest http_method string header "payload option"
  | TokenRequest string
  | RefreshAccessToken "string option" string string

text \<open>
  What the client does not own is a parameter: the helpers of \<open>twitchAPI/helper.py\<close>
  (\<open>TWITCH_AUTH_BASE_URL\<close>, \<open>build_url\<close>, \<open>build_scope\<close>), the network (\<open>requests\<close>
  answers the last event of a trace, knowing everything sent before it) and the
  \<open>refresh_access_token\<close> function of \<open>twitchAPI/oauth.py\<close>, which returns the new
  token pair or raises. The transport itself is taken to deliver a response.
\<close>

record env =
  TWITCH_AUTH_BASE_URL :: string
  build_url :: "string \<Rightarrow> (string \<times> string) list \<Rightarrow> string"
  build_scope :: "auth_scope list \<Rightarrow> string"
  requests :: "event list \<Rightarrow> response"
  refresh_access_token :: "event list \<Rightarrow> exn + string \<times> string"

text \<open>The fields of class \<open>Twitch\<close>.\<close>

record twitch =
  app_id :: string
  app_secret :: string
  app_auth_token :: "string option"
  app_auth_scope :: "auth_scope list"
  has_app_auth :: bool
  user_auth_token :: "string option"
  user_auth_refresh_token :: "string option"
  user_auth_scope :: "auth_scope list"
  has_user_auth :: bool
  auto_refresh_auth :: bool

text \<open>
  The state a method runs in: the client object and the trace so far. A method returns
  its outcome (the exception raised, or the value returned) together with the state it
  leaves behind, since an exception does not undo the assignments made before it.
\<close>

record world =
  self :: twitch
  trace :: "event list"

definition init :: "string \<Rightarrow> string \<Rightarrow> twitch" where
  "init aid asecret =
     \<lparr>app_id = aid, app_secret = asecret,
      app_auth_token = None, app_auth_scope = [], has_app_auth = False,
      user_auth_token = None, user_auth_refresh_token = None, user_auth_scope = [],
      has_user_auth = False, auto_refresh_auth = True\<rparr>"

section \<open>Rendering values in messages\<close>

text \<open>The f-string rendering of an \<open>Optional[str]\<close> and of an \<open>int\<close>.\<close>

fun py_str :: "string option \<Rightarrow> string" where
  "py_str None = ''None''"
| "py_str (Some s) = s"

fun str_nat :: "nat \<Rightarrow> string" where
  "str_nat n =
     (if n < 10 then [char_of (48 + n)]
      else str_nat (n div 10) @ [char_of (48 + n mod 10)])"

declare str_nat.simps [simp del]

definition str_int :: "int \<Rightarrow> string" where
  "str_int i = (if i < 0 then ''-'' @ str_nat (nat (- i)) else str_nat (nat i))"

section \<open>Header construction\<close>

text \<open>
  The loop \<open>for s in required_scope: if s not in scope: raise MissingScopeException(...)\<close>
  of \<open>__generate_header\<close>, with the prefix of the message as a parameter.
\<close>

fun check_scope :: "string \<Rightarrow> auth_scope list \<Rightarrow> auth_scope list \<Rightarrow> exn + unit" where
  "check_scope msg granted [] = Inr ()"
| "check_scope msg granted (s # rest) =
     (if s \<notin> set granted then Inl (MissingScopeException (msg @ name s))
      else check_scope msg granted rest)"

definition generate_header :: "twitch \<Rightarrow> auth_type \<Rightarrow> auth_scope list \<Rightarrow> exn + header" where
  "generate_header tw auth_type required_scope =
     (let header = [(''Client-ID'', app_id tw)] in
      if auth_type = APP then
        if \<not> has_app_auth tw then Inl (UnauthorizedException ''Require app authentication!'')
        else (case check_scope ''Require app auth scope '' (app_auth_scope tw) required_scope of
                Inl e \<Rightarrow> Inl e
              | Inr _ \<Rightarrow>
                  Inr (header @ [(''Authorization'', ''Bearer '' @ py_str (app_auth_token tw))]))
      else if auth_type = USER then
        if \<not> has_user_auth tw then Inl (UnauthorizedException ''require user authentication!'')
        else (case check_scope ''Require user auth scope '' (user_auth_scope tw) required_scope of
                Inl e \<Rightarrow> Inl e
              | Inr _ \<Rightarrow>
                  Inr (header @ [(''Authorization'', ''Bearer '' @ py_str (user_auth_token tw))]))
      else if has_user_auth tw \<or> has_app_auth tw then
        Inr (header @
          [(''Authorization'',
            ''Bearer '' @ py_str (if has_user_auth tw then user_auth_token tw
                                  else app_auth_token tw))])
      else Inr header)"

section \<open>Credential store\<close>

definition get_app_token :: "twitch \<Rightarrow> string option" where
  "get_app_token tw = app_auth_token tw"

definition get_user_auth_token :: "twitch \<Rightarrow> string option" where
  "get_user_auth_token tw = user_auth_token tw"

definition get_used_token :: "twitch \<Rightarrow> string option" where
  "get_used_token tw = (if has_user_auth tw then user_auth_token tw else app_auth_token tw)"

definition set_user_authentication ::
  "string \<Rightarrow> auth_scope list \<Rightarrow> string option \<Rightarrow> twitch \<Rightarrow> exn + twitch" where
  "set_user_authentication token scope refresh_token tw =
     (if refresh_token = None \<and> auto_refresh_auth tw then
        Inl (ValueError ''refresh_token has to be provided when auto_refresh_user_auth is True'')
      else Inr (tw\<lparr>user_auth_token := Some token,
                   user_auth_refresh_token := refresh_token,
                   user_auth_scope := scope,
                   has_user_auth := True\<rparr>))"

section \<open>Token generation and refresh\<close>

definition generate_app_token :: "env \<Rightarrow> world \<Rightarrow> (exn + unit) \<times> world" where
  "generate_app_token env w =
     (let tw = self w;
          params = [(''client_id'', app_id tw),
                    (''client_secret'', app_secret tw),
                    (''grant_type'', ''client_credentials''),
                    (''scope'', build_scope env (app_auth_scope tw))];
          url = build_url env (TWITCH_AUTH_BASE_URL env @ ''oauth2/token'') params;
          tr = trace w @ [TokenRequest url];
          result = requests env tr;
          w1 = w\<lparr>trace := tr\<rparr>
      in if status_code result \<noteq> 200 then
           (Inl (TwitchAuthorizationException
                  (''Authentication failed with code '' @ str_int (status_code result)
                     @ '' ('' @ text_body result @ '')'')), w1)
         else
           (case json result of
              None \<Rightarrow>
                (Inl (TwitchAuthorizationException
                       ''Authentication response did not have a valid json body''), w1)
            | Some JOther \<Rightarrow> (Inl TypeError, w1)
            | Some (JDict d) \<Rightarrow>
                (case map_of d ''access_token'' of
                   None \<Rightarrow>
                     (Inl (TwitchAuthorizationException
                            ''Authentication response did not contain access_token''), w1)
                 | Some t \<Rightarrow> (Inr (), w1\<lparr>self := tw\<lparr>app_auth_token := Some t\<rparr>\<rparr>))))"

definition authenticate_app :: "env \<Rightarrow> auth_scope list \<Rightarrow> world \<Rightarrow> (exn + unit) \<times> world" where
  "authenticate_app env scope w =
     (let w0 = w\<lparr>self := (self w)\<lparr>app_auth_scope := scope\<rparr>\<rparr> in
      case generate_app_token env w0 of
        (Inl e, w1) \<Rightarrow> (Inl e, w1)
      | (Inr _, w1) \<Rightarrow> (Inr (), w1\<lparr>self := (self w1)\<lparr>has_app_auth := True\<rparr>\<rparr>))"

definition refresh_used_token :: "env \<Rightarrow> world \<Rightarrow> (exn + unit) \<times> world" where
  "refresh_used_token env w =
     (let tw = self w in
      if has_user_auth tw then
        (let tr = trace w @
                    [RefreshAccessToken (user_auth_refresh_token tw) (app_id tw) (app_secret tw)];
             w1 = w\<lparr>trace := tr\<rparr>
         in case refresh_access_token env tr of
              Inl e \<Rightarrow> (Inl e, w1)
            | Inr (t, r) \<Rightarrow>
                (Inr (), w1\<lparr>self := tw\<lparr>user_auth_token := Some t,
                                         user_auth_refresh_token := Some r\<rparr>\<rparr>))
      else generate_app_token env w)"

section \<open>The request executor\<close>

text \<open>
  \<open>__api_get_request\<close>, \<open>__api_post_request\<close>, \<open>__api_put_request\<close>,
  \<open>__api_patch_request\<close> and \<open>__api_delete_request\<close> have the same body up to the
  function of \<open>requests\<close> they call; \<open>api_request\<close> is that body with the method as a
  parameter. \<open>retries\<close> is a Python \<open>int\<close>.
\<close>

function api_request ::
  "env \<Rightarrow> http_method \<Rightarrow> string \<Rightarrow> auth_type \<Rightarrow> auth_scope list \<Rightarrow> payload option \<Rightarrow> int
     \<Rightarrow> world \<Rightarrow> (exn + response) \<times> world" where
  "api_request env m url auth_type required_scope body retries w =
     (case generate_header (self w) auth_type required_scope of
        Inl e \<Rightarrow> (Inl e, w)
      | Inr headers \<Rightarrow>
          (let tr = trace w @ [ApiRequest m url headers body];
               req = requests env tr;
               w1 = w\<lparr>trace := tr\<rparr>
           in if auto_refresh_auth (self w1) \<and> retries > 0 then
                if status_code req = 401 then
                  (case refresh_used_token env w1 of
                     (Inl e, w2) \<Rightarrow> (Inl e, w2)
                   | (Inr _, w2) \<Rightarrow>
                       api_request env m url auth_type required_scope body (retries - 1) w2)
                else if status_code req = 503 then
                  api_request env m url auth_type required_scope body 0 w1
                else (Inr req, w1)
              else if auto_refresh_auth (self w1) \<and> retries \<le> 0 then
                if status_code req = 503 then
                  (Inl (TwitchBackendException ''The Twitch API returns a server error''), w1)
                else (Inr req, w1)
              else (Inr req, w1)))"
  by pat_completeness auto
termination
  by (relation "measure (\<lambda>(env, m, url, auth_type, required_scope, body, retries, w). nat retries)")
    auto

declare api_request.simps [simp del]

definition api_get_request ::
  "env \<Rightarrow> string \<Rightarrow> auth_type \<Rightarrow> auth_scope list \<Rightarrow> int \<Rightarrow> world \<Rightarrow> (exn + response) \<times> world" where
  "api_get_request env url auth_type required_scope retries w =
     api_request env GET url auth_type required_scope None retries w"

definition api_post_request ::
  "env \<Rightarrow> string \<Rightarrow> auth_type \<Rightarrow> auth_scope list \<Rightarrow> payload option \<Rightarrow> int \<Rightarrow> world
     \<Rightarrow> (exn + response) \<times> world" where
  "api_post_request env url auth_type required_scope body retries w =
     api_request env POST url auth_type required_scope body retries w"

definition api_put_request ::
  "env \<Rightarrow> string \<Rightarrow> auth_type \<Rightarrow> auth_scope list \<Rightarrow> payload option \<Rightarrow> int \<Rightarrow> world
     \<Rightarrow> (exn + response) \<times> world" where
  "api_put_request env url auth_type required_scope body retries w =
     api_request env PUT url auth_type required_scope body retries w"

definition api_patch_request ::
  "env \<Rightarrow> string \<Rightarrow> auth_type \<Rightarrow> auth_scope list \<Rightarrow> payload option \<Rightarrow> int \<Rightarrow> world
     \<Rightarrow> (exn + response) \<times> world" where
  "api_patch_request env url auth_type required_scope body retries w =
     api_request env PATCH url auth_type required_scope body retries w"

definition api_delete_request ::
  "env \<Rightarrow> string \<Rightarrow> auth_type \<Rightarrow> auth_scope list \<Rightarrow> payload option \<Rightarrow> int \<Rightarrow> world
     \<Rightarrow> (exn + response) \<times> world" where
  "api_delete_request env url auth_type required_scope body retries w =
     api_request env DELETE url auth_type required_scope body retries w"

section \<open>Reading a trace\<close>

text \<open>
  The claims count two kinds of events: attempts on a resource endpoint, and invocations
  of the token refresher (the POST of \<open>__generate_app_token\<close> or the call of
  \<open>refresh_access_token\<close>).
\<close>

fun is_api_request :: "event \<Rightarrow> bool" where
  "is_api_request (ApiRequest m url h body) = True"
| "is_api_request (TokenRequest url) = False"
| "is_api_request (RefreshAccessToken r aid asecret) = False"

fun is_refresh :: "event \<Rightarrow> bool" where
  "is_refresh (ApiRequest m url h body) = False"
| "is_refresh (TokenRequest url) = True"
| "is_refresh (RefreshAccessToken r aid asecret) = True"

definition api_attempts :: "event list \<Rightarrow> nat" where
  "api_attempts tr = length (filter is_api_request tr)"

definition refresh_attempts :: "event list \<Rightarrow> nat" where
  "refresh_attempts tr = length (filter is_refresh tr)"

text \<open>The request to the token endpoint that \<open>__generate_app_token\<close> builds from a client.\<close>

definition app_token_request :: "env \<Rightarrow> twitch \<Rightarrow> event" where
  "app_token_request env tw =
     TokenRequest
       (build_url env (TWITCH_AUTH_BASE_URL env @ ''oauth2/token'')
          [(''client_id'', app_id tw),
           (''client_secret'', app_secret tw),
           (''grant_type'', ''client_credentials''),
           (''scope'', build_scope env (app_auth_scope tw))])"

text \<open>The event with which \<open>refresh_used_token\<close> starts, as a function of the client.\<close>

definition refresh_event :: "env \<Rightarrow> twitch \<Rightarrow> event" where
  "refresh_event env tw =
     (if has_user_auth tw
      then RefreshAccessToken (user_auth_refresh_token tw) (app_id tw) (app_secret tw)
      else app_token_request env tw)"

section \<open>Example clients and servers\<close>

definition resp :: "int \<Rightarrow> response" where
  "resp c = \<lparr>status_code = c, text_body = [], json = None\<rparr>"

definition token_resp :: "string \<Rightarrow> response" where
  "token_resp t =
     \<lparr>status_code = 200, text_body = [], json = Some (JDict [(''access_token'', t)])\<rparr>"

text \<open>
  A server that answers the k-th request to a resource endpoint with the k-th response of
  a list (and with 200 after that), and every request to the token endpoint with \<open>tok\<close>.
\<close>

definition script :: "response list \<Rightarrow> response \<Rightarrow> event list \<Rightarrow> response" where
  "script rs tok tr =
     (case rev tr of
        [] \<Rightarrow> resp 200
      | TokenRequest url # _ \<Rightarrow> tok
      | _ # _ \<Rightarrow>
          (let k = api_attempts tr
           in if 0 < k \<and> k \<le> length rs then rs ! (k - 1) else resp 200))"

definition example_env :: "response list \<Rightarrow> response \<Rightarrow> env" where
  "example_env rs tok =
     \<lparr>TWITCH_AUTH_BASE_URL = ''https://id.twitch.tv/'',
      build_url = (\<lambda>url params. url),
      build_scope = (\<lambda>scope. concat (map name scope)),
      requests = script rs tok,
      refresh_access_token = (\<lambda>tr. Inr (''user1'', ''refresh1''))\<rparr>"

definition app_client :: twitch where
  "app_client = (init ''id'' ''secret'')\<lparr>app_auth_token := Some ''app0'', has_app_auth := True\<rparr>"

definition both_client :: twitch where
  "both_client =
     app_client\<lparr>user_auth_token := Some ''user0'',
                user_auth_refresh_token := Some ''refresh0'',
                has_user_auth := True\<rparr>"

definition scoped_client :: twitch where
  "scoped_client =
     both_client\<lparr>app_auth_scope := [AuthScope ''A''], user_auth_scope := [AuthScope ''A'']\<rparr>"

section \<open>Facts about the scope check and the header\<close>

lemma check_scope_subset:
  "set R \<subseteq> set G \<Longrightarrow> check_scope msg G R = Inr ()"
  by (induction R) auto

lemma check_scope_first_unmet:
  "set pre \<subseteq> set G \<Longrightarrow> s \<notin> set G \<Longrightarrow>
     check_scope msg G (pre @ s # post) = Inl (MissingScopeException (msg @ name s))"
  by (induction pre) auto

lemma first_unmet_split:
  assumes "\<not> set R \<subseteq> set G"
  shows "\<exists>pre s post. R = pre @ s # post \<and> set pre \<subseteq> set G \<and> s \<notin> set G"
proof -
  from assms have "\<exists>x\<in>set R. x \<notin> set G" by blast
  then obtain pre s post where "R = pre @ s # post" "s \<notin> set G" "\<forall>y\<in>set pre. \<not> y \<notin> set G"
    using split_list_first_prop[of R "\<lambda>x. x \<notin> set G"] by blast
  then show ?thesis by blast
qed

lemma generate_header_APP:
  "has_app_auth tw \<Longrightarrow> generate_header tw APP R =
     (case check_scope ''Require app auth scope '' (app_auth_scope tw) R of
        Inl e \<Rightarrow> Inl e
      | Inr _ \<Rightarrow> Inr [(''Client-ID'', app_id tw),
                (''Authorization'', ''Bearer '' @ py_str (app_auth_token tw))])"
  by (simp add: generate_header_def split: sum.splits)

lemma generate_header_USER:
  "has_user_auth tw \<Longrightarrow> generate_header tw USER R =
     (case check_scope ''Require user auth scope '' (user_auth_scope tw) R of
        Inl e \<Rightarrow> Inl e
      | Inr _ \<Rightarrow> Inr [(''Client-ID'', app_id tw),
                (''Authorization'', ''Bearer '' @ py_str (user_auth_token tw))])"
  by (simp add: generate_header_def split: sum.splits)

lemma check_scope_missing:
  assumes "\<not> set R \<subseteq> set G"
  shows "\<exists>pre s post. R = pre @ s # post \<and> set pre \<subseteq> set G \<and> s \<in> set R - set G \<and>
        check_scope msg G R = Inl (MissingScopeException (msg @ name s))"
proof -
  from first_unmet_split[OF assms]
  obtain pre s post where *: "R = pre @ s # post" "set pre \<subseteq> set G" "s \<notin> set G"
    by (elim exE conjE)
  have c: "check_scope msg G R = Inl (MissingScopeException (msg @ name s))"
    unfolding *(1) by (rule check_scope_first_unmet[OF *(2) *(3)])
  from *(1) *(3) have m: "s \<in> set R - set G" by simp
  show ?thesis
    by (rule exI[of _ pre], rule exI[of _ s], rule exI[of _ post]) (intro conjI * m c)
qed



lemma api_request_header_fail:
  "generate_header (self w) a R = Inl e \<Longrightarrow> api_request env m url a R body retries w = (Inl e, w)"
  by (subst api_request.simps) simp

lemma api_request_unfold:
  "generate_header (self w) a R = Inr h \<Longrightarrow>
   api_request env m url a R body retries w =
     (let w1 = w\<lparr>trace := trace w @ [ApiRequest m url h body]\<rparr>;
          req = requests env (trace w @ [ApiRequest m url h body])
      in if auto_refresh_auth (self w) \<and> retries > 0 \<and> status_code req = 401 then
           (case refresh_used_token env w1 of
              (Inl e, w2) \<Rightarrow> (Inl e, w2)
            | (Inr u, w2) \<Rightarrow> api_request env m url a R body (retries - 1) w2)
         else if auto_refresh_auth (self w) \<and> retries > 0 \<and> status_code req = 503 then
           api_request env m url a R body 0 w1
         else if auto_refresh_auth (self w) \<and> retries \<le> 0 \<and> status_code req = 503 then
           (Inl (TwitchBackendException ''The Twitch API returns a server error''), w1)
         else (Inr req, w1))"
  by (subst api_request.simps) (simp add: Let_def)


lemma generate_app_token_effect:
  "generate_app_token env w = (res, w2) \<Longrightarrow>
     trace w2 = trace w @ [app_token_request env (self w)] \<and>
     (case res of Inl e \<Rightarrow> self w2 = self w
      | Inr u \<Rightarrow> \<exists>t. self w2 = (self w)\<lparr>app_auth_token := Some t\<rparr>)"
  by (auto simp: generate_app_token_def app_token_request_def Let_def
      split: if_splits option.splits json_value.splits)

lemma refresh_used_token_trace:
  "refresh_used_token env w = (res, w2) \<Longrightarrow> trace w2 = trace w @ [refresh_event env (self w)]"
proof (cases "has_user_auth (self w)")
  case True
  assume "refresh_used_token env w = (res, w2)"
  with True show ?thesis
    by (auto simp: refresh_used_token_def refresh_event_def Let_def split: sum.splits prod.splits)
next
  case False
  assume "refresh_used_token env w = (res, w2)"
  with False have "generate_app_token env w = (res, w2)"
    by (simp add: refresh_used_token_def)
  from generate_app_token_effect[OF this] False show ?thesis
    by (simp add: refresh_event_def)
qed




lemma refresh_event_kind [simp]:
  "is_api_request (refresh_event env tw) = False" "is_refresh (refresh_event env tw) = True"
  by (simp_all add: refresh_event_def app_token_request_def)

lemma api_attempts_simps [simp]:
  "api_attempts [] = 0"
  "api_attempts (ev # tr) = (if is_api_request ev then Suc (api_attempts tr) else api_attempts tr)"
  "api_attempts (tr @ tr') = api_attempts tr + api_attempts tr'"
  by (simp_all add: api_attempts_def)

lemma refresh_attempts_simps [simp]:
  "refresh_attempts [] = 0"
  "refresh_attempts (ev # tr) = (if is_refresh ev then Suc (refresh_attempts tr) else refresh_attempts tr)"
  "refresh_attempts (tr @ tr') = refresh_attempts tr + refresh_attempts tr'"
  by (simp_all add: refresh_attempts_def)

lemma api_request_trace_bound:
  "\<exists>new. trace (snd (api_request env m url a R body retries w)) = trace w @ new \<and>
         api_attempts new \<le> nat retries + 1"
proof (induction "nat retries" arbitrary: retries w rule: less_induct)
  case less
  show ?case
  proof (cases "generate_header (self w) a R")
    case (Inl e)
    then have "api_request env m url a R body retries w = (Inl e, w)"
      by (rule api_request_header_fail)
    then show ?thesis by simp
  next
    case (Inr h)
    define w1 where "w1 = w\<lparr>trace := trace w @ [ApiRequest m url h body]\<rparr>"
    define req where "req = requests env (trace w @ [ApiRequest m url h body])"
    note unf = api_request_unfold[OF Inr, of env m url body retries, folded w1_def req_def,
        unfolded Let_def]
    consider (refresh) "auto_refresh_auth (self w) \<and> retries > 0 \<and> status_code req = 401"
      | (again) "auto_refresh_auth (self w) \<and> retries > 0 \<and> status_code req = 503"
      | (stop) "\<not> (auto_refresh_auth (self w) \<and> retries > 0 \<and> status_code req = 401)"
               "\<not> (auto_refresh_auth (self w) \<and> retries > 0 \<and> status_code req = 503)"
      by blast
    then show ?thesis
    proof cases
      case refresh
      obtain res w2 where r: "refresh_used_token env w1 = (res, w2)"
        by (cases "refresh_used_token env w1") blast
      have tr2: "trace w2 = trace w @ [ApiRequest m url h body, refresh_event env (self w)]"
        using refresh_used_token_trace[OF r] by (simp add: w1_def)
      show ?thesis
      proof (cases res)
        case (Inl e)
        with refresh r unf have "api_request env m url a R body retries w = (Inl e, w2)"
          by simp
        with tr2 show ?thesis by simp
      next
        case (Inr u)
        with refresh r unf have eq: "api_request env m url a R body retries w =
            api_request env m url a R body (retries - 1) w2"
          by simp
        from refresh have "nat (retries - 1) < nat retries" by simp
        from less[OF this, of w2] obtain new where
          n: "trace (snd (api_request env m url a R body (retries - 1) w2)) = trace w2 @ new"
             "api_attempts new \<le> nat (retries - 1) + 1"
          by blast
        have "trace (snd (api_request env m url a R body retries w)) =
            trace w @ ([ApiRequest m url h body, refresh_event env (self w)] @ new)"
          using eq n(1) tr2 by simp
        moreover have "api_attempts ([ApiRequest m url h body, refresh_event env (self w)] @ new)
            \<le> nat retries + 1"
        proof -
          from refresh have "Suc (nat (retries - 1)) = nat retries" by arith
          with n(2) show ?thesis by simp
        qed
        ultimately show ?thesis by blast
      qed
    next
      case again
      with unf have eq: "api_request env m url a R body retries w =
          api_request env m url a R body 0 w1"
        by simp
      from again have "nat 0 < nat retries" by simp
      from less[OF this, of w1] obtain new where
        n: "trace (snd (api_request env m url a R body 0 w1)) = trace w1 @ new"
           "api_attempts new \<le> nat 0 + 1"
        by blast
      have "trace (snd (api_request env m url a R body retries w)) =
          trace w @ ([ApiRequest m url h body] @ new)"
        using eq n(1) by (simp add: w1_def)
      moreover have "api_attempts ([ApiRequest m url h body] @ new) \<le> nat retries + 1"
      proof -
        from again have "1 \<le> nat retries" by arith
        with n(2) show ?thesis by simp
      qed
      ultimately show ?thesis by blast
    next
      case stop
      with unf have "trace (snd (api_request env m url a R body retries w)) =
          trace w @ [ApiRequest m url h body]"
        by (auto simp: w1_def)
      moreover have "api_attempts [ApiRequest m url h body] \<le> nat retries + 1" by simp
      ultimately show ?thesis by blast
    qed
  qed
qed

lemma generate_header_APP_granted:
  "has_app_auth tw \<longrightarrow>
      ((\<exists>h. generate_header tw APP R = Inr h) \<longleftrightarrow> set R \<subseteq> set (app_auth_scope tw)) \<and>
      (set R \<subseteq> set (app_auth_scope tw) \<longrightarrow>
         generate_header tw APP R =
           Inr [(''Client-ID'', app_id tw),
                (''Authorization'', ''Bearer '' @ py_str (app_auth_token tw))]) \<and>
      (\<not> set R \<subseteq> set (app_auth_scope tw) \<longrightarrow>
         (\<exists>pre s post. R = pre @ s # post \<and> set pre \<subseteq> set (app_auth_scope tw) \<and>
            s \<in> set R - set (app_auth_scope tw) \<and>
            generate_header tw APP R =
              Inl (MissingScopeException (''Require app auth scope '' @ name s))))"
proof (cases "set R \<subseteq> set (app_auth_scope tw)")
  case True
  then show ?thesis
    by (simp add: generate_header_APP check_scope_subset)
next
  case False
  from check_scope_missing[OF False, of "''Require app auth scope ''"]
  obtain pre s post where *: "R = pre @ s # post" "set pre \<subseteq> set (app_auth_scope tw)"
    "s \<in> set R - set (app_auth_scope tw)"
    "check_scope ''Require app auth scope '' (app_auth_scope tw) R =
       Inl (MissingScopeException (''Require app auth scope '' @ name s))"
    by (elim exE conjE)
  show ?thesis
  proof (intro impI conjI)
    assume a: "has_app_auth tw"
    have g: "generate_header tw APP R =
        Inl (MissingScopeException (''Require app auth scope '' @ name s))"
      using a *(4) by (simp add: generate_header_APP)
    show "(\<exists>h. generate_header tw APP R = Inr h) \<longleftrightarrow> set R \<subseteq> set (app_auth_scope tw)"
      using g False by simp
    show "generate_header tw APP R =
           Inr [(''Client-ID'', app_id tw),
                (''Authorization'', ''Bearer '' @ py_str (app_auth_token tw))]"
      if "set R \<subseteq> set (app_auth_scope tw)"
      using that False by simp
    show "\<exists>pre s post. R = pre @ s # post \<and> set pre \<subseteq> set (app_auth_scope tw) \<and>
            s \<in> set R - set (app_auth_scope tw) \<and>
            generate_header tw APP R =
              Inl (MissingScopeException (''Require app auth scope '' @ name s))"
      by (rule exI[of _ pre], rule exI[of _ s], rule exI[of _ post]) (intro conjI *(1-3) g)
  qed
qed

lemma generate_header_USER_granted:
  "has_user_auth tw \<longrightarrow>
      ((\<exists>h. generate_header tw USER R = Inr h) \<longleftrightarrow> set R \<subseteq> set (user_auth_scope tw)) \<and>
      (set R \<subseteq> set (user_auth_scope tw) \<longrightarrow>
         generate_header tw USER R =
           Inr [(''Client-ID'', app_id tw),
                (''Authorization'', ''Bearer '' @ py_str (user_auth_token tw))]) \<and>
      (\<not> set R \<subseteq> set (user_auth_scope tw) \<longrightarrow>
         (\<exists>pre s post. R = pre @ s # post \<and> set pre \<subseteq> set (user_auth_scope tw) \<and>
            s \<in> set R - set (user_auth_scope tw) \<and>
            generate_header tw USER R =
              Inl (MissingScopeException (''Require user auth scope '' @ name s))))"
proof (cases "set R \<subseteq> set (user_auth_scope tw)")
  case True
  then show ?thesis
    by (simp add: generate_header_USER check_scope_subset)
next
  case False
  from check_scope_missing[OF False, of "''Require user auth scope ''"]
  obtain pre s post where *: "R = pre @ s # post" "set pre \<subseteq> set (user_auth_scope tw)"
    "s \<in> set R - set (user_auth_scope tw)"
    "check_scope ''Require user auth scope '' (user_auth_scope tw) R =
       Inl (MissingScopeException (''Require user auth scope '' @ name s))"
    by (elim exE conjE)
  show ?thesis
  proof (intro impI conjI)
    assume a: "has_user_auth tw"
    have g: "generate_header tw USER R =
        Inl (MissingScopeException (''Require user auth scope '' @ name s))"
      using a *(4) by (simp add: generate_header_USER)
    show "(\<exists>h. generate_header tw USER R = Inr h) \<longleftrightarrow> set R \<subseteq> set (user_auth_scope tw)"
      using g False by simp
    show "generate_header tw USER R =
           Inr [(''Client-ID'', app_id tw),
                (''Authorization'', ''Bearer '' @ py_str (user_auth_token tw))]"
      if "set R \<subseteq> set (user_auth_scope tw)"
      using that False by simp
    show "\<exists>pre s post. R = pre @ s # post \<and> set pre \<subseteq> set (user_auth_scope tw) \<and>
            s \<in> set R - set (user_auth_scope tw) \<and>
            generate_header tw USER R =
              Inl (MissingScopeException (''Require user auth scope '' @ name s))"
      by (rule exI[of _ pre], rule exI[of _ s], rule exI[of _ post]) (intro conjI *(1-3) g)
  qed
qed


text \<open>
  C5. With a credential installed for the mode (\<open>APP\<close> or \<open>USER\<close>), granted scopes \<open>G\<close>
  and required scopes \<open>R\<close>: the header is built if and only if \<open>R \<subseteq> G\<close>; when it is
  built it carries the client id and the bearer token of that credential; when it is not,
  \<open>MissingScopeException\<close> names the first scope of \<open>R\<close> (in the order of \<open>R\<close>) that is
  not granted, an element of \<open>R - G\<close>.
\<close>

theorem generate_header_scope_check:
  "(has_app_auth tw \<longrightarrow>
      ((\<exists>h. generate_header tw APP R = Inr h) \<longleftrightarrow> set R \<subseteq> set (app_auth_scope tw)) \<and>
      (set R \<subseteq> set (app_auth_scope tw) \<longrightarrow>
         generate_header tw APP R =
           Inr [(''Client-ID'', app_id tw),
                (''Authorization'', ''Bearer '' @ py_str (app_auth_token tw))]) \<and>
      (\<not> set R \<subseteq> set (app_auth_scope tw) \<longrightarrow>
         (\<exists>pre s post. R = pre @ s # post \<and> set pre \<subseteq> set (app_auth_scope tw) \<and>
            s \<in> set R - set (app_auth_scope tw) \<and>
            generate_header tw APP R =
              Inl (MissingScopeException (''Require app auth scope '' @ name s))))) \<and>
   (has_user_auth tw \<longrightarrow>
      ((\<exists>h. generate_header tw USER R = Inr h) \<longleftrightarrow> set R \<subseteq> set (user_auth_scope tw)) \<and>
      (set R \<subseteq> set (user_auth_scope tw) \<longrightarrow>
         generate_header tw USER R =
           Inr [(''Client-ID'', app_id tw),
                (''Authorization'', ''Bearer '' @ py_str (user_auth_token tw))]) \<and>
      (\<not> set R \<subseteq> set (user_auth_scope tw) \<longrightarrow>
         (\<exists>pre s post. R = pre @ s # post \<and> set pre \<subseteq> set (user_auth_scope tw) \<and>
            s \<in> set R - set (user_auth_scope tw) \<and>
            generate_header tw USER R =
              Inl (MissingScopeException (''Require user auth scope '' @ name s)))))"
  by (rule conjI) (rule generate_header_APP_granted, rule generate_header_USER_granted)

theorem generate_header_scope_check_witness:
  "generate_header scoped_client APP [AuthScope ''A''] =
     Inr [(''Client-ID'', ''id''), (''Authorization'', ''Bearer app0'')] \<and>
   generate_header scoped_client USER [AuthScope ''A''] =
     Inr [(''Client-ID'', ''id''), (''Authorization'', ''Bearer user0'')] \<and>
   (\<exists>h. generate_header scoped_client APP [AuthScope ''A'', AuthScope ''B''] = Inr h) = False \<and>
   (\<exists>h. generate_header scoped_client USER [AuthScope ''A'', AuthScope ''B''] = Inr h) = False"
  using generate_header_scope_check[of scoped_client "[AuthScope ''A'']"]
    generate_header_scope_check[of scoped_client "[AuthScope ''A'', AuthScope ''B'']"]
  by (simp add: scoped_client_def both_client_def app_client_def init_def)

text \<open>
  C4 (as stated). In the third mode the header builder has no such failure: with no
  credential at all it returns the header with the client id only, and the request is
  sent.
\<close>

theorem either_mode_without_credential_counterexample:
  "\<not> has_app_auth (init ''id'' ''secret'') \<and> \<not> has_user_auth (init ''id'' ''secret'') \<and>
   generate_header (init ''id'' ''secret'') EITHER [] = Inr [(''Client-ID'', ''id'')] \<and>
   api_get_request (example_env [] (resp 200)) ''url'' EITHER [] 1
       \<lparr>self = init ''id'' ''secret'', trace = []\<rparr> =
     (Inr (resp 200),
      \<lparr>self = init ''id'' ''secret'',
       trace = [ApiRequest GET ''url'' [(''Client-ID'', ''id'')] None]\<rparr>)"
proof -
  have h: "generate_header (init ''id'' ''secret'') EITHER [] = Inr [(''Client-ID'', ''id'')]"
    by (simp add: generate_header_def init_def)
  have "generate_header (self \<lparr>self = init ''id'' ''secret'', trace = []\<rparr>) EITHER [] =
      Inr [(''Client-ID'', ''id'')]"
    using h by simp
  from api_request_unfold[OF this, of "example_env [] (resp 200)" GET "''url''" None 1]
  have "api_get_request (example_env [] (resp 200)) ''url'' EITHER [] 1
       \<lparr>self = init ''id'' ''secret'', trace = []\<rparr> =
     (Inr (resp 200),
      \<lparr>self = init ''id'' ''secret'',
       trace = [ApiRequest GET ''url'' [(''Client-ID'', ''id'')] None]\<rparr>)"
    by (simp add: api_get_request_def example_env_def script_def resp_def Let_def)
  with h show ?thesis by (simp add: init_def)
qed

text \<open>
  C4 (amended). In mode \<open>APP\<close> without app authentication, and in mode \<open>USER\<close> without
  user authentication, for every required scope list the header builder fails with
  \<open>UnauthorizedException\<close> and the executor raises it with the state unchanged: nothing
  is added to the trace, so no request is sent and no retry is made.
\<close>

theorem unauthorized_before_any_request:
  "(\<not> has_app_auth (self w) \<longrightarrow>
      generate_header (self w) APP R = Inl (UnauthorizedException ''Require app authentication!'') \<and>
      api_request env m url APP R body retries w =
        (Inl (UnauthorizedException ''Require app authentication!''), w)) \<and>
   (\<not> has_user_auth (self w) \<longrightarrow>
      generate_header (self w) USER R = Inl (UnauthorizedException ''require user authentication!'') \<and>
      api_request env m url USER R body retries w =
        (Inl (UnauthorizedException ''require user authentication!''), w))"
proof (intro conjI impI)
  assume a: "\<not> has_app_auth (self w)"
  then show g: "generate_header (self w) APP R =
      Inl (UnauthorizedException ''Require app authentication!'')"
    by (simp add: generate_header_def)
  show "api_request env m url APP R body retries w =
        (Inl (UnauthorizedException ''Require app authentication!''), w)"
    by (rule api_request_header_fail[OF g])
next
  assume a: "\<not> has_user_auth (self w)"
  then show g: "generate_header (self w) USER R =
      Inl (UnauthorizedException ''require user authentication!'')"
    by (simp add: generate_header_def)
  show "api_request env m url USER R body retries w =
        (Inl (UnauthorizedException ''require user authentication!''), w)"
    by (rule api_request_header_fail[OF g])
qed

theorem unauthorized_before_any_request_witness:
  "api_request (example_env [] (resp 200)) GET ''url'' APP [AuthScope ''A''] None 1
       \<lparr>self = init ''id'' ''secret'', trace = []\<rparr> =
     (Inl (UnauthorizedException ''Require app authentication!''),
      \<lparr>self = init ''id'' ''secret'', trace = []\<rparr>) \<and>
   api_request (example_env [] (resp 200)) POST ''url'' USER [AuthScope ''A''] None 1
       \<lparr>self = init ''id'' ''secret'', trace = []\<rparr> =
     (Inl (UnauthorizedException ''require user authentication!''),
      \<lparr>self = init ''id'' ''secret'', trace = []\<rparr>)"
  using unauthorized_before_any_request[of "\<lparr>self = init ''id'' ''secret'', trace = []\<rparr>"
      "[AuthScope ''A'']" "example_env [] (resp 200)" GET "''url''" None 1]
    unauthorized_before_any_request[of "\<lparr>self = init ''id'' ''secret'', trace = []\<rparr>"
      "[AuthScope ''A'']" "example_env [] (resp 200)" POST "''url''" None 1]
  by (simp add: init_def)

text \<open>
  C9. In the third mode the header builder returns a header for every required scope
  list, and the list plays no part in the result: the bearer token is the one
  \<open>get_used_token\<close> returns (the user token when user authentication is installed,
  otherwise the app token) when some credential is installed, and there is no
  \<open>Authorization\<close> entry when none is. Whatever the mode, a header that is built maps
  \<open>Client-ID\<close> to the app id.
\<close>

theorem generate_header_either:
  "generate_header tw EITHER R =
     Inr (if has_user_auth tw \<or> has_app_auth tw
          then [(''Client-ID'', app_id tw),
                (''Authorization'', ''Bearer '' @ py_str (get_used_token tw))]
          else [(''Client-ID'', app_id tw)]) \<and>
   get_used_token tw = (if has_user_auth tw then user_auth_token tw else app_auth_token tw) \<and>
   (generate_header tw a R' = Inr h \<longrightarrow> map_of h ''Client-ID'' = Some (app_id tw))"
proof (intro conjI impI)
  show "generate_header tw EITHER R =
     Inr (if has_user_auth tw \<or> has_app_auth tw
          then [(''Client-ID'', app_id tw),
                (''Authorization'', ''Bearer '' @ py_str (get_used_token tw))]
          else [(''Client-ID'', app_id tw)])"
    by (simp add: generate_header_def get_used_token_def)
  show "get_used_token tw = (if has_user_auth tw then user_auth_token tw else app_auth_token tw)"
    by (simp add: get_used_token_def)
  assume "generate_header tw a R' = Inr h"
  then show "map_of h ''Client-ID'' = Some (app_id tw)"
    by (auto simp: generate_header_def Let_def split: if_splits sum.splits)
qed

theorem generate_header_either_witness:
  "generate_header both_client EITHER [AuthScope ''A''] =
     Inr [(''Client-ID'', ''id''), (''Authorization'', ''Bearer user0'')] \<and>
   generate_header app_client EITHER [AuthScope ''A''] =
     Inr [(''Client-ID'', ''id''), (''Authorization'', ''Bearer app0'')] \<and>
   generate_header (init ''id'' ''secret'') EITHER [AuthScope ''A''] =
     Inr [(''Client-ID'', ''id'')] \<and>
   map_of [(''Client-ID'', ''id''), (''Authorization'', ''Bearer app0'')] ''Client-ID'' =
     Some (app_id app_client)"
proof -
  have h: "generate_header app_client APP [] =
      Inr [(''Client-ID'', ''id''), (''Authorization'', ''Bearer app0'')]"
    by (simp add: generate_header_def app_client_def init_def)
  show ?thesis
    using generate_header_either[of both_client "[AuthScope ''A'']" APP "[]"
        "[(''Client-ID'', ''id''), (''Authorization'', ''Bearer app0'')]"]
      generate_header_either[of app_client "[AuthScope ''A'']" APP "[]"
        "[(''Client-ID'', ''id''), (''Authorization'', ''Bearer app0'')]"]
      generate_header_either[of "init ''id'' ''secret''" "[AuthScope ''A'']" APP "[]"
        "[(''Client-ID'', ''id''), (''Authorization'', ''Bearer app0'')]"]
      h
    by (simp add: both_client_def app_client_def init_def get_used_token_def)
qed

text \<open>
  C7. With \<open>auto_refresh_auth\<close> off, a call is one header construction and, when that
  succeeds, one request whose response is returned as it is, whatever its status (401
  and 503 included): the trace grows by that one request, nothing is refreshed and no
  \<open>TwitchBackendException\<close> is raised. A failure of the header builder is raised before
  the request.
\<close>

theorem no_auto_refresh_single_attempt:
  assumes "\<not> auto_refresh_auth (self w)"
  shows "api_request env m url a R body retries w =
     (case generate_header (self w) a R of
        Inl e \<Rightarrow> (Inl e, w)
      | Inr h \<Rightarrow>
          (Inr (requests env (trace w @ [ApiRequest m url h body])),
           w\<lparr>trace := trace w @ [ApiRequest m url h body]\<rparr>))"
proof (cases "generate_header (self w) a R")
  case (Inl e)
  then show ?thesis by (simp add: api_request_header_fail)
next
  case (Inr h)
  from api_request_unfold[OF Inr, of env m url body retries] assms Inr
  show ?thesis by (simp add: Let_def)
qed

theorem no_auto_refresh_single_attempt_witness:
  "api_request (example_env [resp 401] (resp 200)) GET ''url'' APP [] None 1
       \<lparr>self = app_client\<lparr>auto_refresh_auth := False\<rparr>, trace = []\<rparr> =
     (Inr (resp 401),
      \<lparr>self = app_client\<lparr>auto_refresh_auth := False\<rparr>,
       trace = [ApiRequest GET ''url''
                  [(''Client-ID'', ''id''), (''Authorization'', ''Bearer app0'')] None]\<rparr>) \<and>
   api_request (example_env [resp 503] (resp 200)) POST ''url'' APP [] None 1
       \<lparr>self = app_client\<lparr>auto_refresh_auth := False\<rparr>, trace = []\<rparr> =
     (Inr (resp 503),
      \<lparr>self = app_client\<lparr>auto_refresh_auth := False\<rparr>,
       trace = [ApiRequest POST ''url''
                  [(''Client-ID'', ''id''), (''Authorization'', ''Bearer app0'')] None]\<rparr>)"
  using no_auto_refresh_single_attempt[of
      "\<lparr>self = app_client\<lparr>auto_refresh_auth := False\<rparr>, trace = []\<rparr>"
      "example_env [resp 401] (resp 200)" GET "''url''" APP "[]" None 1]
    no_auto_refresh_single_attempt[of
      "\<lparr>self = app_client\<lparr>auto_refresh_auth := False\<rparr>, trace = []\<rparr>"
      "example_env [resp 503] (resp 200)" POST "''url''" APP "[]" None 1]
  by (simp add: app_client_def init_def generate_header_def example_env_def script_def)

text \<open>
  C8. \<open>api_request\<close> is a total function: its recursion is accepted with the measure
  \<open>nat retries\<close>, which each re-entry decreases (from a positive budget to the budget
  minus one, or to 0). For a budget \<open>retries \<ge> 0\<close>, whatever the server answers, a call
  adds at most \<open>retries + 1\<close> requests to resource endpoints to the trace; with the
  default budget 1, at most 2.
\<close>

theorem api_request_bounded_attempts:
  assumes "0 \<le> retries"
  shows "\<exists>new. trace (snd (api_request env m url a R body retries w)) = trace w @ new \<and>
           int (api_attempts new) \<le> retries + 1"
proof -
  from api_request_trace_bound[of env m url a R body retries w] obtain new where
    n: "trace (snd (api_request env m url a R body retries w)) = trace w @ new"
       "api_attempts new \<le> nat retries + 1"
    by (elim exE conjE)
  from n(2) assms have "int (api_attempts new) \<le> retries + 1" by arith
  with n(1) show ?thesis by (intro exI conjI)
qed

theorem api_request_bounded_attempts_witness:
  "0 \<le> (1::int) \<and>
   (\<exists>new. trace (snd (api_request (example_env [resp 401, resp 401] (token_resp ''app1''))
                        GET ''url'' APP [] None 1 \<lparr>self = app_client, trace = []\<rparr>)) = new \<and>
          int (api_attempts new) \<le> 2)"
  using api_request_bounded_attempts[of 1 "example_env [resp 401, resp 401] (token_resp ''app1'')"
      GET "''url''" APP "[]" None "\<lparr>self = app_client, trace = []\<rparr>"]
  by simp

lemma api_request_exhausted:
  assumes "generate_header (self w) a R = Inr h" "auto_refresh_auth (self w)" "retries \<le> 0"
  shows "api_request env m url a R body retries w =
     (if status_code (requests env (trace w @ [ApiRequest m url h body])) = 503
      then Inl (TwitchBackendException ''The Twitch API returns a server error'')
      else Inr (requests env (trace w @ [ApiRequest m url h body])),
      w\<lparr>trace := trace w @ [ApiRequest m url h body]\<rparr>)"
  using api_request_unfold[OF assms(1), of env m url body retries] assms(2,3)
  by (simp add: Let_def)

lemma api_request_503_step:
  assumes "generate_header (self w) a R = Inr h" "auto_refresh_auth (self w)" "0 < retries"
    "status_code (requests env (trace w @ [ApiRequest m url h body])) = 503"
  shows "api_request env m url a R body retries w =
     api_request env m url a R body 0 (w\<lparr>trace := trace w @ [ApiRequest m url h body]\<rparr>)"
  using api_request_unfold[OF assms(1), of env m url body retries] assms(2,3,4)
  by (simp add: Let_def)

lemma api_request_401_step:
  assumes "generate_header (self w) a R = Inr h" "auto_refresh_auth (self w)" "0 < retries"
    "status_code (requests env (trace w @ [ApiRequest m url h body])) = 401"
  shows "api_request env m url a R body retries w =
     (case refresh_used_token env (w\<lparr>trace := trace w @ [ApiRequest m url h body]\<rparr>) of
        (Inl e, w2) \<Rightarrow> (Inl e, w2)
      | (Inr u, w2) \<Rightarrow> api_request env m url a R body (retries - 1) w2)"
  using api_request_unfold[OF assms(1), of env m url body retries] assms(2,3,4)
  by (simp add: Let_def)

lemma api_request_503_resend:
  assumes "generate_header (self w) a R = Inr h" "auto_refresh_auth (self w)" "0 < retries"
    "status_code (requests env (trace w @ [ApiRequest m url h body])) = 503"
  shows "api_request env m url a R body retries w =
     (if status_code (requests env (trace w @ [ApiRequest m url h body, ApiRequest m url h body]))
           = 503
      then Inl (TwitchBackendException ''The Twitch API returns a server error'')
      else Inr (requests env (trace w @ [ApiRequest m url h body, ApiRequest m url h body])),
      w\<lparr>trace := trace w @ [ApiRequest m url h body, ApiRequest m url h body]\<rparr>)"
proof -
  let ?w1 = "w\<lparr>trace := trace w @ [ApiRequest m url h body]\<rparr>"
  have h1: "generate_header (self ?w1) a R = Inr h" using assms(1) by simp
  have a1: "auto_refresh_auth (self ?w1)" using assms(2) by simp
  have "api_request env m url a R body retries w = api_request env m url a R body 0 ?w1"
    by (rule api_request_503_step[OF assms])
  also have "\<dots> =
     (if status_code (requests env (trace ?w1 @ [ApiRequest m url h body])) = 503
      then Inl (TwitchBackendException ''The Twitch API returns a server error'')
      else Inr (requests env (trace ?w1 @ [ApiRequest m url h body])),
      ?w1\<lparr>trace := trace ?w1 @ [ApiRequest m url h body]\<rparr>)"
    by (rule api_request_exhausted[OF h1 a1]) simp
  finally show ?thesis by simp
qed

text \<open>
  C6. With \<open>auto_refresh_auth\<close> on and a positive budget: when the request is answered
  with 503 and the one resend is answered with 503 again, the call raises
  \<open>TwitchBackendException\<close>. The trace has grown by the two requests only and the client
  object is unchanged: the token refresher was not invoked.
\<close>

theorem backend_error_after_two_503:
  assumes "auto_refresh_auth (self w)" "0 < retries"
    and "generate_header (self w) a R = Inr h"
    and "status_code (requests env (trace w @ [ApiRequest m url h body])) = 503"
    and "status_code
           (requests env (trace w @ [ApiRequest m url h body, ApiRequest m url h body])) = 503"
  shows "api_request env m url a R body retries w =
           (Inl (TwitchBackendException ''The Twitch API returns a server error''),
            w\<lparr>trace := trace w @ [ApiRequest m url h body, ApiRequest m url h body]\<rparr>) \<and>
         refresh_attempts [ApiRequest m url h body, ApiRequest m url h body] = 0"
  using api_request_503_resend[OF assms(3) assms(1) assms(2) assms(4)] assms(5)
  by simp

theorem backend_error_after_two_503_witness:
  "api_request (example_env [resp 503, resp 503] (resp 200)) GET ''url'' APP [] None 1
       \<lparr>self = app_client, trace = []\<rparr> =
     (Inl (TwitchBackendException ''The Twitch API returns a server error''),
      \<lparr>self = app_client,
       trace = [ApiRequest GET ''url''
                  [(''Client-ID'', ''id''), (''Authorization'', ''Bearer app0'')] None,
                ApiRequest GET ''url''
                  [(''Client-ID'', ''id''), (''Authorization'', ''Bearer app0'')] None]\<rparr>)"
  using backend_error_after_two_503[of "\<lparr>self = app_client, trace = []\<rparr>" 1 APP "[]"
      "[(''Client-ID'', ''id''), (''Authorization'', ''Bearer app0'')]"
      "example_env [resp 503, resp 503] (resp 200)" GET "''url''" None]
  by (simp add: app_client_def init_def generate_header_def example_env_def script_def resp_def)

text \<open>
  C2 (amended). With \<open>auto_refresh_auth\<close> on, a 503 received while the budget is positive
  is followed by exactly one resend with the same headers and no refresh, whose response
  decides the call (503 again raises \<open>TwitchBackendException\<close>, anything else is
  returned); a 503 received when the budget is 0 or less is not resent:
  \<open>TwitchBackendException\<close> is raised at once.
\<close>

theorem resend_503_only_with_budget:
  assumes "auto_refresh_auth (self w)"
    and "generate_header (self w) a R = Inr h"
    and "status_code (requests env (trace w @ [ApiRequest m url h body])) = 503"
  shows "(0 < retries \<longrightarrow>
            api_request env m url a R body retries w =
              (if status_code
                    (requests env (trace w @ [ApiRequest m url h body, ApiRequest m url h body]))
                  = 503
               then Inl (TwitchBackendException ''The Twitch API returns a server error'')
               else Inr (requests env
                           (trace w @ [ApiRequest m url h body, ApiRequest m url h body])),
               w\<lparr>trace := trace w @ [ApiRequest m url h body, ApiRequest m url h body]\<rparr>)) \<and>
         (retries \<le> 0 \<longrightarrow>
            api_request env m url a R body retries w =
              (Inl (TwitchBackendException ''The Twitch API returns a server error''),
               w\<lparr>trace := trace w @ [ApiRequest m url h body]\<rparr>))"
proof (intro conjI impI)
  assume "0 < retries"
  then show "api_request env m url a R body retries w =
              (if status_code
                    (requests env (trace w @ [ApiRequest m url h body, ApiRequest m url h body]))
                  = 503
               then Inl (TwitchBackendException ''The Twitch API returns a server error'')
               else Inr (requests env
                           (trace w @ [ApiRequest m url h body, ApiRequest m url h body])),
               w\<lparr>trace := trace w @ [ApiRequest m url h body, ApiRequest m url h body]\<rparr>)"
    using api_request_503_resend[OF assms(2) assms(1) _ assms(3)] by simp
next
  assume "retries \<le> 0"
  then show "api_request env m url a R body retries w =
              (Inl (TwitchBackendException ''The Twitch API returns a server error''),
               w\<lparr>trace := trace w @ [ApiRequest m url h body]\<rparr>)"
    using api_request_exhausted[OF assms(2) assms(1)] assms(3) by simp
qed

theorem resend_503_only_with_budget_witness:
  "api_request (example_env [resp 503, resp 200] (resp 200)) GET ''url'' APP [] None 1
       \<lparr>self = app_client, trace = []\<rparr> =
     (Inr (resp 200),
      \<lparr>self = app_client,
       trace = [ApiRequest GET ''url''
                  [(''Client-ID'', ''id''), (''Authorization'', ''Bearer app0'')] None,
                ApiRequest GET ''url''
                  [(''Client-ID'', ''id''), (''Authorization'', ''Bearer app0'')] None]\<rparr>) \<and>
   api_request (example_env [resp 503, resp 200] (resp 200)) GET ''url'' APP [] None 0
       \<lparr>self = app_client, trace = []\<rparr> =
     (Inl (TwitchBackendException ''The Twitch API returns a server error''),
      \<lparr>self = app_client,
       trace = [ApiRequest GET ''url''
                  [(''Client-ID'', ''id''), (''Authorization'', ''Bearer app0'')] None]\<rparr>)"
  using resend_503_only_with_budget[of "\<lparr>self = app_client, trace = []\<rparr>" APP "[]"
      "[(''Client-ID'', ''id''), (''Authorization'', ''Bearer app0'')]"
      "example_env [resp 503, resp 200] (resp 200)" GET "''url''" None 1]
    resend_503_only_with_budget[of "\<lparr>self = app_client, trace = []\<rparr>" APP "[]"
      "[(''Client-ID'', ''id''), (''Authorization'', ''Bearer app0'')]"
      "example_env [resp 503, resp 200] (resp 200)" GET "''url''" None 0]
  by (simp add: app_client_def init_def generate_header_def example_env_def script_def resp_def)

text \<open>
  C2 (as stated). The default budget is 1; the first answer is 401, the app token is
  refreshed, and the resend (budget now 0) is answered with 503. The call raises
  \<open>TwitchBackendException\<close> with that request as the last event of the trace: the 503
  got no resend.
\<close>

theorem no_resend_for_503_at_budget_zero_counterexample:
  "api_get_request (example_env [resp 401, resp 503, resp 200] (token_resp ''app1''))
       ''url'' APP [] 1 \<lparr>self = app_client, trace = []\<rparr> =
     (Inl (TwitchBackendException ''The Twitch API returns a server error''),
      \<lparr>self = app_client\<lparr>app_auth_token := Some ''app1''\<rparr>,
       trace = [ApiRequest GET ''url''
                  [(''Client-ID'', ''id''), (''Authorization'', ''Bearer app0'')] None,
                TokenRequest ''https://id.twitch.tv/oauth2/token'',
                ApiRequest GET ''url''
                  [(''Client-ID'', ''id''), (''Authorization'', ''Bearer app1'')] None]\<rparr>)"
proof -
  let ?env = "example_env [resp 401, resp 503, resp 200] (token_resp ''app1'')"
  let ?h0 = "[(''Client-ID'', ''id''), (''Authorization'', ''Bearer app0'')]"
  let ?h1 = "[(''Client-ID'', ''id''), (''Authorization'', ''Bearer app1'')]"
  let ?w0 = "\<lparr>self = app_client, trace = []\<rparr>"
  let ?w1 = "\<lparr>self = app_client, trace = [ApiRequest GET ''url'' ?h0 None]\<rparr>"
  let ?w2 = "\<lparr>self = app_client\<lparr>app_auth_token := Some ''app1''\<rparr>,
             trace = [ApiRequest GET ''url'' ?h0 None,
                      TokenRequest ''https://id.twitch.tv/oauth2/token'']\<rparr>"
  have h0: "generate_header (self ?w0) APP [] = Inr ?h0"
    by (simp add: generate_header_def app_client_def init_def)
  have h2: "generate_header (self ?w2) APP [] = Inr ?h1"
    by (simp add: generate_header_def app_client_def init_def)
  have auto0: "auto_refresh_auth (self ?w0)" and auto2: "auto_refresh_auth (self ?w2)"
    by (simp_all add: app_client_def init_def)
  have refresh: "refresh_used_token ?env ?w1 = (Inr (), ?w2)"
    by (simp add: refresh_used_token_def generate_app_token_def Let_def app_client_def init_def
        example_env_def script_def token_resp_def)
  have second: "api_request ?env GET ''url'' APP [] None 0 ?w2 =
      (Inl (TwitchBackendException ''The Twitch API returns a server error''),
       ?w2\<lparr>trace := trace ?w2 @ [ApiRequest GET ''url'' ?h1 None]\<rparr>)"
    using api_request_exhausted[OF h2 auto2, of 0 ?env GET "''url''" None]
    by (simp add: example_env_def script_def resp_def)
  have first: "api_request ?env GET ''url'' APP [] None 1 ?w0 =
      api_request ?env GET ''url'' APP [] None 0 ?w2"
    using api_request_401_step[OF h0 auto0, of 1 ?env GET "''url''" None] refresh
    by (simp add: example_env_def script_def resp_def)
  show ?thesis
    unfolding api_get_request_def first second by simp
qed



text \<open>
  C1 (as stated). A client with both credentials installed makes a call in mode \<open>APP\<close>;
  the header carries the app token and the answer is 401. The refresh that follows is
  the user one: \<open>refresh_access_token\<close> is called, the user token pair is replaced, the
  token endpoint is not asked for an app token, and the resend carries the same app
  token as before.
\<close>

theorem app_call_refreshes_user_token_counterexample:
  "api_get_request (example_env [resp 401, resp 401] (token_resp ''app1''))
       ''url'' APP [] 1 \<lparr>self = both_client, trace = []\<rparr> =
     (Inr (resp 401),
      \<lparr>self = both_client\<lparr>user_auth_token := Some ''user1'',
                           user_auth_refresh_token := Some ''refresh1''\<rparr>,
       trace = [ApiRequest GET ''url''
                  [(''Client-ID'', ''id''), (''Authorization'', ''Bearer app0'')] None,
                RefreshAccessToken (Some ''refresh0'') ''id'' ''secret'',
                ApiRequest GET ''url''
                  [(''Client-ID'', ''id''), (''Authorization'', ''Bearer app0'')] None]\<rparr>)"
proof -
  let ?env = "example_env [resp 401, resp 401] (token_resp ''app1'')"
  let ?h0 = "[(''Client-ID'', ''id''), (''Authorization'', ''Bearer app0'')]"
  let ?w0 = "\<lparr>self = both_client, trace = []\<rparr>"
  let ?w1 = "?w0\<lparr>trace := trace ?w0 @ [ApiRequest GET ''url'' ?h0 None]\<rparr>"
  let ?w2 = "\<lparr>self = both_client\<lparr>user_auth_token := Some ''user1'',
                                  user_auth_refresh_token := Some ''refresh1''\<rparr>,
             trace = [ApiRequest GET ''url'' ?h0 None,
                      RefreshAccessToken (Some ''refresh0'') ''id'' ''secret'']\<rparr>"
  have h0: "generate_header (self ?w0) APP [] = Inr ?h0"
    by (simp add: generate_header_def both_client_def app_client_def init_def)
  have h2: "generate_header (self ?w2) APP [] = Inr ?h0"
    by (simp add: generate_header_def both_client_def app_client_def init_def)
  have auto0: "auto_refresh_auth (self ?w0)" and auto2: "auto_refresh_auth (self ?w2)"
    by (simp_all add: both_client_def app_client_def init_def)
  have s1: "status_code (requests ?env (trace ?w0 @ [ApiRequest GET ''url'' ?h0 None])) = 401"
    by (simp add: example_env_def script_def resp_def)
  have refresh: "refresh_used_token ?env ?w1 = (Inr (), ?w2)"
    by (simp add: refresh_used_token_def Let_def both_client_def app_client_def init_def
        example_env_def)
  have second: "api_request ?env GET ''url'' APP [] None 0 ?w2 =
      (Inr (resp 401), ?w2\<lparr>trace := trace ?w2 @ [ApiRequest GET ''url'' ?h0 None]\<rparr>)"
    using api_request_exhausted[OF h2 auto2, of 0 ?env GET "''url''" None]
    by (simp add: example_env_def script_def resp_def)
  have first: "api_request ?env GET ''url'' APP [] None 1 ?w0 =
      api_request ?env GET ''url'' APP [] None 0 ?w2"
    using api_request_401_step[OF h0 auto0 _ s1, of 1] refresh by simp
  show ?thesis
    unfolding api_get_request_def first second by simp
qed

text \<open>
  C10. \<open>authenticate_app\<close> assigns the requested scope list before it asks for a token.
  When the token endpoint answers with a status other than 200, with a body that is not
  JSON, or with an object without \<open>access_token\<close>, the call raises
  \<open>TwitchAuthorizationException\<close> and leaves a client whose app scope list is the new
  one while the app token and \<open>has_app_auth\<close> are the old ones. A client that had app
  authentication then has its required scopes checked against the new list, and the
  next app token request sends the new list.
\<close>

theorem authenticate_app_failure_keeps_new_scope:
  assumes "status_code (requests env (trace w @
               [app_token_request env ((self w)\<lparr>app_auth_scope := scope\<rparr>)])) \<noteq> 200 \<or>
           json (requests env (trace w @
               [app_token_request env ((self w)\<lparr>app_auth_scope := scope\<rparr>)])) = None \<or>
           (\<exists>d. json (requests env (trace w @
                    [app_token_request env ((self w)\<lparr>app_auth_scope := scope\<rparr>)])) =
                  Some (JDict d) \<and> map_of d ''access_token'' = None)"
  shows "(\<exists>msg. fst (authenticate_app env scope w) = Inl (TwitchAuthorizationException msg)) \<and>
         snd (authenticate_app env scope w) =
           w\<lparr>self := (self w)\<lparr>app_auth_scope := scope\<rparr>,
              trace := trace w @
                [app_token_request env ((self w)\<lparr>app_auth_scope := scope\<rparr>)]\<rparr> \<and>
         app_auth_scope (self (snd (authenticate_app env scope w))) = scope \<and>
         app_auth_token (self (snd (authenticate_app env scope w))) = app_auth_token (self w) \<and>
         has_app_auth (self (snd (authenticate_app env scope w))) = has_app_auth (self w) \<and>
         (has_app_auth (self w) \<longrightarrow>
            ((\<exists>h. generate_header (self (snd (authenticate_app env scope w))) APP R = Inr h)
               \<longleftrightarrow> set R \<subseteq> set scope)) \<and>
         app_token_request env (self (snd (authenticate_app env scope w))) =
           TokenRequest
             (build_url env (TWITCH_AUTH_BASE_URL env @ ''oauth2/token'')
                [(''client_id'', app_id (self w)),
                 (''client_secret'', app_secret (self w)),
                 (''grant_type'', ''client_credentials''),
                 (''scope'', build_scope env scope)]) \<and>
         trace (snd (generate_app_token env (snd (authenticate_app env scope w)))) =
           trace (snd (authenticate_app env scope w)) @
             [app_token_request env (self (snd (authenticate_app env scope w)))]"
proof -
  let ?w0 = "w\<lparr>self := (self w)\<lparr>app_auth_scope := scope\<rparr>\<rparr>"
  let ?ev = "app_token_request env ((self w)\<lparr>app_auth_scope := scope\<rparr>)"
  let ?w1 = "w\<lparr>self := (self w)\<lparr>app_auth_scope := scope\<rparr>, trace := trace w @ [?ev]\<rparr>"
  have gen: "\<exists>msg. generate_app_token env ?w0 = (Inl (TwitchAuthorizationException msg), ?w1)"
    using assms
    by (auto simp: generate_app_token_def app_token_request_def Let_def
        split: option.splits json_value.splits)
  then obtain msg where g: "generate_app_token env ?w0 = (Inl (TwitchAuthorizationException msg), ?w1)"
    by blast
  have auth: "authenticate_app env scope w = (Inl (TwitchAuthorizationException msg), ?w1)"
    using g by (simp add: authenticate_app_def Let_def)
  have fst_eq: "fst (authenticate_app env scope w) = Inl (TwitchAuthorizationException msg)"
    and snd_eq: "snd (authenticate_app env scope w) = ?w1"
    using auth by simp_all
  have hdr: "(\<exists>h. generate_header (self ?w1) APP R = Inr h) \<longleftrightarrow> set R \<subseteq> set scope"
    if "has_app_auth (self w)"
  proof -
    from that have "has_app_auth (self ?w1)" by simp
    with generate_header_APP_granted[of "self ?w1" R] show ?thesis by simp
  qed
  have req: "app_token_request env (self ?w1) =
           TokenRequest
             (build_url env (TWITCH_AUTH_BASE_URL env @ ''oauth2/token'')
                [(''client_id'', app_id (self w)),
                 (''client_secret'', app_secret (self w)),
                 (''grant_type'', ''client_credentials''),
                 (''scope'', build_scope env scope)])"
    by (simp add: app_token_request_def)
  have nxt: "trace (snd (generate_app_token env ?w1)) =
           trace ?w1 @ [app_token_request env (self ?w1)]"
  proof -
    obtain res w2 where r: "generate_app_token env ?w1 = (res, w2)"
      by (cases "generate_app_token env ?w1") blast
    from generate_app_token_effect[OF r] r show ?thesis
      by simp
  qed
  show ?thesis
    unfolding snd_eq fst_eq
    using hdr req nxt by simp
qed


theorem authenticate_app_failure_keeps_new_scope_witness:
  "(\<exists>msg. fst (authenticate_app (example_env [] (resp 500)) [AuthScope ''A'']
                 \<lparr>self = app_client, trace = []\<rparr>) = Inl (TwitchAuthorizationException msg)) \<and>
   snd (authenticate_app (example_env [] (resp 500)) [AuthScope ''A'']
          \<lparr>self = app_client, trace = []\<rparr>) =
     \<lparr>self = app_client\<lparr>app_auth_scope := [AuthScope ''A'']\<rparr>,
      trace = [TokenRequest ''https://id.twitch.tv/oauth2/token'']\<rparr> \<and>
   has_app_auth app_client \<and>
   app_auth_token (app_client\<lparr>app_auth_scope := [AuthScope ''A'']\<rparr>) = Some ''app0'' \<and>
   (\<exists>h. generate_header (app_client\<lparr>app_auth_scope := [AuthScope ''A'']\<rparr>) APP
           [AuthScope ''B''] = Inr h) = False"
proof -
  let ?env = "example_env [] (resp 500)"
  let ?w0 = "\<lparr>self = app_client, trace = []\<rparr>"
  let ?ev = "app_token_request ?env ((self ?w0)\<lparr>app_auth_scope := [AuthScope ''A'']\<rparr>)"
  have ev: "?ev = TokenRequest ''https://id.twitch.tv/oauth2/token''"
    by (simp add: app_token_request_def example_env_def)
  have "status_code (requests ?env (trace ?w0 @ [?ev])) \<noteq> 200"
    unfolding ev by (simp add: example_env_def script_def resp_def)
  then have d: "status_code (requests ?env (trace ?w0 @ [?ev])) \<noteq> 200 \<or>
      json (requests ?env (trace ?w0 @ [?ev])) = None \<or>
      (\<exists>d. json (requests ?env (trace ?w0 @ [?ev])) = Some (JDict d) \<and>
           map_of d ''access_token'' = None)"
    by (rule disjI1)
  note t = authenticate_app_failure_keeps_new_scope[OF d, where R = "[AuthScope ''B'']"]
  have has: "has_app_auth (self ?w0)"
    by (simp add: app_client_def init_def)
  have f: "\<exists>msg. fst (authenticate_app ?env [AuthScope ''A''] ?w0) =
      Inl (TwitchAuthorizationException msg)"
    by (rule t[THEN conjunct1])
  have s: "snd (authenticate_app ?env [AuthScope ''A''] ?w0) =
      ?w0\<lparr>self := (self ?w0)\<lparr>app_auth_scope := [AuthScope ''A'']\<rparr>,
          trace := trace ?w0 @ [?ev]\<rparr>"
    by (rule t[THEN conjunct2, THEN conjunct1])
  have g: "(\<exists>h. generate_header (self (snd (authenticate_app ?env [AuthScope ''A''] ?w0))) APP
                 [AuthScope ''B''] = Inr h) \<longleftrightarrow> set [AuthScope ''B''] \<subseteq> set [AuthScope ''A'']"
    using t[THEN conjunct2, THEN conjunct2, THEN conjunct2, THEN conjunct2, THEN conjunct2,
        THEN conjunct1] has
    by (rule mp)
  have g': "(\<exists>h. generate_header (app_client\<lparr>app_auth_scope := [AuthScope ''A'']\<rparr>) APP
                 [AuthScope ''B''] = Inr h) = False"
    using g unfolding s by simp
  have tok: "app_auth_token (app_client\<lparr>app_auth_scope := [AuthScope ''A'']\<rparr>) = Some ''app0''"
    by (simp add: app_client_def init_def)
  show ?thesis
    using f s has g' tok unfolding ev by simp
qed

lemma refresh_used_token_user:
  assumes "has_user_auth (self w)"
  shows "refresh_used_token env w =
     (case refresh_access_token env
             (trace w @ [RefreshAccessToken (user_auth_refresh_token (self w)) (app_id (self w))
                           (app_secret (self w))]) of
        Inl e \<Rightarrow>
          (Inl e,
           w\<lparr>trace := trace w @ [RefreshAccessToken (user_auth_refresh_token (self w))
                                    (app_id (self w)) (app_secret (self w))]\<rparr>)
      | Inr (t, r) \<Rightarrow>
          (Inr (),
           w\<lparr>self := (self w)\<lparr>user_auth_token := Some t, user_auth_refresh_token := Some r\<rparr>,
              trace := trace w @ [RefreshAccessToken (user_auth_refresh_token (self w))
                                    (app_id (self w)) (app_secret (self w))]\<rparr>))"
  using assms
  by (simp add: refresh_used_token_def Let_def split: sum.splits prod.splits)

lemma refresh_used_token_app:
  assumes "\<not> has_user_auth (self w)"
  shows "refresh_used_token env w = generate_app_token env w"
  using assms by (simp add: refresh_used_token_def)


lemma generate_app_token_ok:
  assumes "status_code (requests env (trace w @ [app_token_request env (self w)])) = 200"
    and "json (requests env (trace w @ [app_token_request env (self w)])) = Some (JDict d)"
    and "map_of d ''access_token'' = Some t"
  shows "generate_app_token env w =
           (Inr (),
            w\<lparr>self := (self w)\<lparr>app_auth_token := Some t\<rparr>,
               trace := trace w @ [app_token_request env (self w)]\<rparr>)"
  using assms
  by (simp add: generate_app_token_def app_token_request_def Let_def)





text \<open>
  C1 (amended). With \<open>auto_refresh_auth\<close> on and a positive budget, a 401 is followed by
  the refresh that \<open>refresh_used_token\<close> chooses from the installed credentials, not from
  the mode of the call: the user token is refreshed whenever user authentication is
  installed (so for every call in mode \<open>USER\<close>, which is sent only then), and the app
  token otherwise (so for a call in mode \<open>APP\<close> only when no user authentication is
  installed). When the refresh succeeds, the chosen credential is replaced (the user
  token pair by the pair the OAuth helper returned, or the app token by the
  \<open>access_token\<close> of the answer) and the call continues from that client; the
  credential that is not chosen keeps its token.
\<close>

theorem refresh_follows_installed_credential:
  assumes "auto_refresh_auth (self w)" "0 < retries"
    and "generate_header (self w) a R = Inr h"
    and "status_code (requests env (trace w @ [ApiRequest m url h body])) = 401"
  shows "(\<exists>rest. trace (snd (api_request env m url a R body retries w)) =
            trace w @ [ApiRequest m url h body, refresh_event env (self w)] @ rest) \<and>
         refresh_event env (self w) =
           (if has_user_auth (self w)
            then RefreshAccessToken (user_auth_refresh_token (self w)) (app_id (self w))
                   (app_secret (self w))
            else app_token_request env (self w)) \<and>
         (a = USER \<longrightarrow> has_user_auth (self w)) \<and>
         (case refresh_used_token env (w\<lparr>trace := trace w @ [ApiRequest m url h body]\<rparr>) of
            (res, w2) \<Rightarrow>
              if has_user_auth (self w)
              then app_auth_token (self w2) = app_auth_token (self w)
              else user_auth_token (self w2) = user_auth_token (self w) \<and>
                   user_auth_refresh_token (self w2) = user_auth_refresh_token (self w)) \<and>
         (has_user_auth (self w) \<and>
          refresh_access_token env
            (trace w @
                 [ApiRequest m url h body,
                  RefreshAccessToken (user_auth_refresh_token (self w)) (app_id (self w))
                    (app_secret (self w))]) = Inr (t, r) \<longrightarrow>
            refresh_used_token env (w\<lparr>trace := trace w @ [ApiRequest m url h body]\<rparr>) =
              (Inr (), (w\<lparr>self := (self w)\<lparr>user_auth_token := Some t, user_auth_refresh_token := Some r\<rparr>,
                 trace := trace w @
                 [ApiRequest m url h body,
                  RefreshAccessToken (user_auth_refresh_token (self w)) (app_id (self w))
                    (app_secret (self w))]\<rparr>)) \<and>
            api_request env m url a R body retries w =
              api_request env m url a R body (retries - 1)
                (w\<lparr>self := (self w)\<lparr>user_auth_token := Some t, user_auth_refresh_token := Some r\<rparr>,
                 trace := trace w @
                 [ApiRequest m url h body,
                  RefreshAccessToken (user_auth_refresh_token (self w)) (app_id (self w))
                    (app_secret (self w))]\<rparr>)) \<and>
         (\<not> has_user_auth (self w) \<and>
          status_code (requests env (trace w @ [ApiRequest m url h body, app_token_request env (self w)])) = 200 \<and>
          json (requests env (trace w @ [ApiRequest m url h body, app_token_request env (self w)])) = Some (JDict d) \<and>
          map_of d ''access_token'' = Some t' \<longrightarrow>
            refresh_used_token env (w\<lparr>trace := trace w @ [ApiRequest m url h body]\<rparr>) =
              (Inr (), (w\<lparr>self := (self w)\<lparr>app_auth_token := Some t'\<rparr>,
                 trace := trace w @ [ApiRequest m url h body, app_token_request env (self w)]\<rparr>)) \<and>
            api_request env m url a R body retries w =
              api_request env m url a R body (retries - 1)
                (w\<lparr>self := (self w)\<lparr>app_auth_token := Some t'\<rparr>,
                 trace := trace w @ [ApiRequest m url h body, app_token_request env (self w)]\<rparr>))"
proof (intro conjI impI)
  let ?w1 = "w\<lparr>trace := trace w @ [ApiRequest m url h body]\<rparr>"
  obtain res w2 where r: "refresh_used_token env ?w1 = (res, w2)"
    by (cases "refresh_used_token env ?w1") blast
  have tr2: "trace w2 = trace w @ [ApiRequest m url h body, refresh_event env (self w)]"
    using refresh_used_token_trace[OF r] by simp
  note step = api_request_401_step[OF assms(3) assms(1) assms(2) assms(4)]
  show "\<exists>rest. trace (snd (api_request env m url a R body retries w)) =
            trace w @ [ApiRequest m url h body, refresh_event env (self w)] @ rest"
  proof (cases res)
    case (Inl e)
    with r step have "api_request env m url a R body retries w = (Inl e, w2)" by simp
    with tr2 show ?thesis by simp
  next
    case (Inr u)
    with r step have "api_request env m url a R body retries w =
        api_request env m url a R body (retries - 1) w2"
      by simp
    moreover from api_request_trace_bound[of env m url a R body "retries - 1" w2]
    obtain new where "trace (snd (api_request env m url a R body (retries - 1) w2)) =
        trace w2 @ new"
      by blast
    ultimately show ?thesis using tr2 by simp
  qed
  show "refresh_event env (self w) =
           (if has_user_auth (self w)
            then RefreshAccessToken (user_auth_refresh_token (self w)) (app_id (self w))
                   (app_secret (self w))
            else app_token_request env (self w))"
    by (simp add: refresh_event_def)
  show "has_user_auth (self w)" if "a = USER"
    using that assms(3) by (simp add: generate_header_def split: if_splits)
  show "case refresh_used_token env ?w1 of
            (res, w2) \<Rightarrow>
              if has_user_auth (self w)
              then app_auth_token (self w2) = app_auth_token (self w)
              else user_auth_token (self w2) = user_auth_token (self w) \<and>
                   user_auth_refresh_token (self w2) = user_auth_refresh_token (self w)"
  proof (cases "has_user_auth (self w)")
    case True
    with r show ?thesis
      by (auto simp: refresh_used_token_def Let_def split: sum.splits prod.splits)
  next
    case False
    with r have "generate_app_token env ?w1 = (res, w2)"
      by (simp add: refresh_used_token_def)
    from generate_app_token_effect[OF this] r False show ?thesis
      by (cases res) auto
  qed
  {
    assume u: "has_user_auth (self w) \<and>
          refresh_access_token env
            (trace w @
                 [ApiRequest m url h body,
                  RefreshAccessToken (user_auth_refresh_token (self w)) (app_id (self w))
                    (app_secret (self w))]) = Inr (t, r)"
    then have "has_user_auth (self ?w1)" by simp
    from refresh_used_token_user[OF this, of env] u
    show ru: "refresh_used_token env (w\<lparr>trace := trace w @ [ApiRequest m url h body]\<rparr>) =
              (Inr (), (w\<lparr>self := (self w)\<lparr>user_auth_token := Some t, user_auth_refresh_token := Some r\<rparr>,
                 trace := trace w @
                 [ApiRequest m url h body,
                  RefreshAccessToken (user_auth_refresh_token (self w)) (app_id (self w))
                    (app_secret (self w))]\<rparr>))"
      by simp
    with step show "api_request env m url a R body retries w =
              api_request env m url a R body (retries - 1)
                (w\<lparr>self := (self w)\<lparr>user_auth_token := Some t, user_auth_refresh_token := Some r\<rparr>,
                 trace := trace w @
                 [ApiRequest m url h body,
                  RefreshAccessToken (user_auth_refresh_token (self w)) (app_id (self w))
                    (app_secret (self w))]\<rparr>)"
      by simp
  }
  {
    assume p: "\<not> has_user_auth (self w) \<and>
          status_code (requests env (trace w @ [ApiRequest m url h body, app_token_request env (self w)])) = 200 \<and>
          json (requests env (trace w @ [ApiRequest m url h body, app_token_request env (self w)])) = Some (JDict d) \<and>
          map_of d ''access_token'' = Some t'"
    then have "\<not> has_user_auth (self ?w1)" by simp
    then have eq: "refresh_used_token env ?w1 = generate_app_token env ?w1"
      by (rule refresh_used_token_app)
    have "generate_app_token env ?w1 =
           (Inr (),
            ?w1\<lparr>self := (self ?w1)\<lparr>app_auth_token := Some t'\<rparr>,
               trace := trace ?w1 @ [app_token_request env (self ?w1)]\<rparr>)"
    proof (rule generate_app_token_ok[where d = d])
      show "status_code (requests env (trace ?w1 @ [app_token_request env (self ?w1)])) = 200"
        using p by simp
      show "json (requests env (trace ?w1 @ [app_token_request env (self ?w1)])) =
          Some (JDict d)"
        using p by simp
      show "map_of d ''access_token'' = Some t'"
        using p by simp
    qed
    with eq show ra: "refresh_used_token env (w\<lparr>trace := trace w @ [ApiRequest m url h body]\<rparr>) =
              (Inr (), (w\<lparr>self := (self w)\<lparr>app_auth_token := Some t'\<rparr>,
                 trace := trace w @ [ApiRequest m url h body, app_token_request env (self w)]\<rparr>))"
      by simp
    with step show "api_request env m url a R body retries w =
              api_request env m url a R body (retries - 1)
                (w\<lparr>self := (self w)\<lparr>app_auth_token := Some t'\<rparr>,
                 trace := trace w @ [ApiRequest m url h body, app_token_request env (self w)]\<rparr>)"
      by simp
  }
qed

theorem refresh_follows_installed_credential_witness:
  "(\<exists>rest. trace (snd (api_request (example_env [resp 401] (token_resp ''app1'')) GET ''url''
                          USER [] None 1 \<lparr>self = both_client, trace = []\<rparr>)) =
      [ApiRequest GET ''url''
         [(''Client-ID'', ''id''), (''Authorization'', ''Bearer user0'')] None,
       RefreshAccessToken (Some ''refresh0'') ''id'' ''secret''] @ rest) \<and>
   has_user_auth both_client \<and>
   (\<exists>rest. trace (snd (api_request (example_env [resp 401] (token_resp ''app1'')) GET ''url''
                          APP [] None 1 \<lparr>self = app_client, trace = []\<rparr>)) =
      [ApiRequest GET ''url''
         [(''Client-ID'', ''id''), (''Authorization'', ''Bearer app0'')] None,
       TokenRequest ''https://id.twitch.tv/oauth2/token''] @ rest) \<and>
   api_request (example_env [resp 401] (token_resp ''app1'')) GET ''url'' USER [] None 1
       \<lparr>self = both_client, trace = []\<rparr> =
     (Inr (resp 200),
      \<lparr>self = both_client\<lparr>user_auth_token := Some ''user1'',
                           user_auth_refresh_token := Some ''refresh1''\<rparr>,
       trace = [ApiRequest GET ''url''
                  [(''Client-ID'', ''id''), (''Authorization'', ''Bearer user0'')] None,
                RefreshAccessToken (Some ''refresh0'') ''id'' ''secret'',
                ApiRequest GET ''url''
                  [(''Client-ID'', ''id''), (''Authorization'', ''Bearer user1'')] None]\<rparr>) \<and>
   api_request (example_env [resp 401] (token_resp ''app1'')) GET ''url'' APP [] None 1
       \<lparr>self = app_client, trace = []\<rparr> =
     (Inr (resp 200),
      \<lparr>self = app_client\<lparr>app_auth_token := Some ''app1''\<rparr>,
       trace = [ApiRequest GET ''url''
                  [(''Client-ID'', ''id''), (''Authorization'', ''Bearer app0'')] None,
                TokenRequest ''https://id.twitch.tv/oauth2/token'',
                ApiRequest GET ''url''
                  [(''Client-ID'', ''id''), (''Authorization'', ''Bearer app1'')] None]\<rparr>)"
proof -
  let ?env = "example_env [resp 401] (token_resp ''app1'')"
  let ?hu = "[(''Client-ID'', ''id''), (''Authorization'', ''Bearer user0'')]"
  let ?hu1 = "[(''Client-ID'', ''id''), (''Authorization'', ''Bearer user1'')]"
  let ?ha = "[(''Client-ID'', ''id''), (''Authorization'', ''Bearer app0'')]"
  let ?ha1 = "[(''Client-ID'', ''id''), (''Authorization'', ''Bearer app1'')]"
  let ?wb = "\<lparr>self = both_client, trace = []\<rparr>"
  let ?wa = "\<lparr>self = app_client, trace = []\<rparr>"
  let ?tru = "trace ?wb @
      [ApiRequest GET ''url'' ?hu None,
       RefreshAccessToken (user_auth_refresh_token (self ?wb)) (app_id (self ?wb))
         (app_secret (self ?wb))]"
  let ?tra = "trace ?wa @ [ApiRequest GET ''url'' ?ha None, app_token_request ?env (self ?wa)]"
  let ?w2u = "?wb\<lparr>self := (self ?wb)\<lparr>user_auth_token := Some ''user1'',
                                     user_auth_refresh_token := Some ''refresh1''\<rparr>,
                 trace := ?tru\<rparr>"
  let ?w2a = "?wa\<lparr>self := (self ?wa)\<lparr>app_auth_token := Some ''app1''\<rparr>, trace := ?tra\<rparr>"
  have pos: "0 < (1::int)"
    by simp
  have autob: "auto_refresh_auth (self ?wb)" and autoa: "auto_refresh_auth (self ?wa)"
    by (simp_all add: both_client_def app_client_def init_def)
  have hb: "generate_header (self ?wb) USER [] = Inr ?hu"
    and ha: "generate_header (self ?wa) APP [] = Inr ?ha"
    by (simp_all add: generate_header_def both_client_def app_client_def init_def)
  have sb: "status_code (requests ?env (trace ?wb @ [ApiRequest GET ''url'' ?hu None])) = 401"
    and sa: "status_code (requests ?env (trace ?wa @ [ApiRequest GET ''url'' ?ha None])) = 401"
    by (simp_all add: example_env_def script_def resp_def)
  have eb: "refresh_event ?env (self ?wb) = RefreshAccessToken (Some ''refresh0'') ''id'' ''secret''"
    and ea: "refresh_event ?env (self ?wa) = TokenRequest ''https://id.twitch.tv/oauth2/token''"
    by (simp_all add: refresh_event_def app_token_request_def example_env_def both_client_def
        app_client_def init_def)
  have ea2: "app_token_request ?env app_client = TokenRequest ''https://id.twitch.tv/oauth2/token''"
    by (simp add: app_token_request_def example_env_def)
  note tb = refresh_follows_installed_credential[OF autob pos hb sb]
  note ta = refresh_follows_installed_credential[OF autoa pos ha sa]
  have b: "(\<exists>rest. trace (snd (api_request ?env GET ''url'' USER [] None 1 ?wb)) =
      trace ?wb @ [ApiRequest GET ''url'' ?hu None, refresh_event ?env (self ?wb)] @ rest)"
    by (rule tb[THEN conjunct1])
  have u: "USER = USER \<longrightarrow> has_user_auth (self ?wb)"
    by (rule tb[THEN conjunct2, THEN conjunct2, THEN conjunct1])
  have a: "(\<exists>rest. trace (snd (api_request ?env GET ''url'' APP [] None 1 ?wa)) =
      trace ?wa @ [ApiRequest GET ''url'' ?ha None, refresh_event ?env (self ?wa)] @ rest)"
    by (rule ta[THEN conjunct1])

  have pu: "has_user_auth (self ?wb) \<and>
      refresh_access_token ?env ?tru = Inr (''user1'', ''refresh1'')"
    by (simp add: both_client_def app_client_def init_def example_env_def)
  note cu = tb[THEN conjunct2, THEN conjunct2, THEN conjunct2, THEN conjunct2, THEN conjunct1,
      THEN mp, OF pu, THEN conjunct2]
  have h2u: "generate_header (self ?w2u) USER [] = Inr ?hu1"
    by (simp add: generate_header_def both_client_def app_client_def init_def)
  have auto2u: "auto_refresh_auth (self ?w2u)"
    by (simp add: both_client_def app_client_def init_def)
  have "api_request ?env GET ''url'' USER [] None (1 - 1) ?w2u =
      (Inr (resp 200), ?w2u\<lparr>trace := trace ?w2u @ [ApiRequest GET ''url'' ?hu1 None]\<rparr>)"
    using api_request_exhausted[OF h2u auto2u, of "1 - 1" ?env GET "''url''" None]
    by (simp add: example_env_def script_def resp_def)
  then have ru: "api_request ?env GET ''url'' USER [] None 1 ?wb =
     (Inr (resp 200),
      \<lparr>self = both_client\<lparr>user_auth_token := Some ''user1'',
                           user_auth_refresh_token := Some ''refresh1''\<rparr>,
       trace = [ApiRequest GET ''url'' ?hu None,
                RefreshAccessToken (Some ''refresh0'') ''id'' ''secret'',
                ApiRequest GET ''url'' ?hu1 None]\<rparr>)"
    unfolding cu by (simp add: both_client_def app_client_def init_def)

  have pa: "\<not> has_user_auth (self ?wa) \<and>
      status_code (requests ?env ?tra) = 200 \<and>
      json (requests ?env ?tra) = Some (JDict [(''access_token'', ''app1'')]) \<and>
      map_of [(''access_token'', ''app1'')] ''access_token'' = Some ''app1''"
    by (simp add: app_client_def init_def example_env_def script_def token_resp_def
        app_token_request_def)
  note ca = ta[THEN conjunct2, THEN conjunct2, THEN conjunct2, THEN conjunct2, THEN conjunct2,
      THEN mp, OF pa, THEN conjunct2]
  have h2a: "generate_header (self ?w2a) APP [] = Inr ?ha1"
    by (simp add: generate_header_def app_client_def init_def)
  have auto2a: "auto_refresh_auth (self ?w2a)"
    by (simp add: app_client_def init_def)
  have "api_request ?env GET ''url'' APP [] None (1 - 1) ?w2a =
      (Inr (resp 200), ?w2a\<lparr>trace := trace ?w2a @ [ApiRequest GET ''url'' ?ha1 None]\<rparr>)"
    using api_request_exhausted[OF h2a auto2a, of "1 - 1" ?env GET "''url''" None]
    by (simp add: ea2 example_env_def script_def resp_def)
  then have ra: "api_request ?env GET ''url'' APP [] None 1 ?wa =
     (Inr (resp 200),
      \<lparr>self = app_client\<lparr>app_auth_token := Some ''app1''\<rparr>,
       trace = [ApiRequest GET ''url'' ?ha None,
                TokenRequest ''https://id.twitch.tv/oauth2/token'',
                ApiRequest GET ''url'' ?ha1 None]\<rparr>)"
    unfolding ca by (simp add: ea2)
  from b u a have "(\<exists>rest. trace (snd (api_request ?env GET ''url'' USER [] None 1 ?wb)) =
      [ApiRequest GET ''url'' ?hu None,
       RefreshAccessToken (Some ''refresh0'') ''id'' ''secret''] @ rest) \<and>
   has_user_auth both_client \<and>
   (\<exists>rest. trace (snd (api_request ?env GET ''url'' APP [] None 1 ?wa)) =
      [ApiRequest GET ''url'' ?ha None,
       TokenRequest ''https://id.twitch.tv/oauth2/token''] @ rest)"
    unfolding eb ea by simp
  with ru ra show ?thesis
    by (intro conjI) (elim conjE, assumption)+
qed

end
